theory Spec2Isabelle
  imports Complex_Main "HOL-Library.Sublist"
begin

section \<open>Python values, exceptions and parse results\<close>

text \<open>
  The module \<open>calc.py\<close> is dynamically typed: a parser may produce any Python object.
  The objects that the module itself creates are strings (a one-character string for each
  input element, the literal given to \<open>string\<close>), lists (built by \<open>many\<close> and \<open>many1\<close>),
  the numbers and the \<open>Ellipsis\<close> object returned by \<open>eval\<close>, the four two-argument
  lambdas of \<open>addop\<close> and \<open>mulop\<close>, \<open>None\<close> (a \<open>Parser\<close> without a function) and the class
  object \<open>ParserError\<close>, which \<open>many\<close> hands around as a value (calling that class
  makes an instance of it, carrying the arguments of the call).

  A Python \<open>float\<close> is an IEEE 754 binary64 number. A finite one is represented by the
  rational number it denotes, \<open>Finite 0\<close> being the positive zero; the negative zero is a
  value of its own.
\<close>

datatype pyfloat = Finite rat | NegZero | PosInf | NegInf | NaN

datatype binop = Add | Sub | Mul | TrueDiv

datatype val =
    VNone
  | VStr string
  | VInt int
  | VFloat pyfloat
  | VEllipsis
  | VList "val list"
  | VLambda binop
  | VClass_ParserError
  | VInstance_ParserError "val list"

text \<open>
  \<open>ParserError("unexpected EOF")\<close> and \<open>ParserError(f"unexpected {ch}")\<close> are the two ways
  the module raises its own exception; the message of the second is determined by the
  element \<open>ch\<close>, which is kept in place of the formatted text. The other exceptions are the
  ones that \<open>eval\<close> and the arithmetic of the lambdas can raise.
\<close>

datatype message = Unexpected_EOF | Unexpected val

datatype exn =
    ParserError message
  | SyntaxError
  | ZeroDivisionError
  | TypeError
  | OverflowError

fun is_ParserError :: "exn \<Rightarrow> bool" where
  "is_ParserError (ParserError m) = True"
| "is_ParserError e = False"

text \<open>
  A call of \<open>parse\<close> either returns the pair \<open>(value, context)\<close> or raises. A call that
  does not return at all (the loop of \<open>many\<close> can spin forever) has the outcome \<open>None\<close>.

  The limits of an interpreter are outside this model: its recursion limit (every step
  of a \<open>do\<close> block, and so every round of \<open>many\<close> and every nested production, runs
  inside the call of the step before it), its memory, and the limit some versions put on
  the number of digits of an integer literal. The outcomes given here are those of the
  runs that stay within these limits. An input is a string of 8-bit characters.
\<close>

datatype result = Return val string | Raise exn

type_synonym outcome = "result option"

section \<open>The Python operations the module relies on\<close>

subsection \<open>Floating-point numbers\<close>

text \<open>
  Every arithmetic operation of a binary64 float returns the exact result rounded to the
  nearest representable number, ties to the even significand: 53 significant bits, the
  smallest exponent of the leading bit is \<open>-1022\<close> (below it the spacing stays
  \<open>2\<^sup>-\<^sup>1\<^sup>0\<^sup>7\<^sup>4\<close>), and a rounded magnitude of \<open>2\<^sup>1\<^sup>0\<^sup>2\<^sup>4\<close> or more is an infinity. A result
  that rounds to zero keeps the sign of the exact result.
\<close>

function bit_length :: "int \<Rightarrow> int" where
  "bit_length n = (if n \<le> 0 then 0 else 1 + bit_length (n div 2))"
  by pat_completeness auto
termination
  by (relation "measure nat") auto

declare bit_length.simps [simp del]

definition pow2 :: "int \<Rightarrow> rat" where
  "pow2 e = (if 0 \<le> e then 2 ^ nat e else 1 / 2 ^ nat (- e))"

definition floor_log2 :: "rat \<Rightarrow> int" where
  "floor_log2 a =
     (let (n, d) = quotient_of a;
          k = bit_length n - bit_length d
      in if pow2 k \<le> a then k else k - 1)"

definition round_half_even :: "rat \<Rightarrow> int" where
  "round_half_even x =
     (let f = \<lfloor>x\<rfloor>; d = x - of_int f
      in if d < 1 / 2 then f
         else if 1 / 2 < d then f + 1
         else if even f then f else f + 1)"

definition zero :: "bool \<Rightarrow> pyfloat" where
  "zero negative = (if negative then NegZero else Finite 0)"

definition infinity :: "bool \<Rightarrow> pyfloat" where
  "infinity negative = (if negative then NegInf else PosInf)"

definition round_double :: "rat \<Rightarrow> pyfloat" where
  "round_double q =
     (if q = 0 then Finite 0
      else let a = \<bar>q\<bar>;
               e = max (floor_log2 a) (- 1022);
               ulp = pow2 (e - 52);
               r = of_int (round_half_even (a / ulp)) * ulp
           in if pow2 1024 \<le> r then infinity (q < 0)
              else if r = 0 then zero (q < 0)
              else Finite (if q < 0 then - r else r))"

fun is_finite :: "pyfloat \<Rightarrow> bool" where
  "is_finite (Finite q) = True"
| "is_finite NegZero = True"
| "is_finite x = False"

fun fval :: "pyfloat \<Rightarrow> rat" where
  "fval (Finite q) = q"
| "fval x = 0"

definition is_zero :: "pyfloat \<Rightarrow> bool" where
  "is_zero x = (is_finite x \<and> fval x = 0)"

fun negative :: "pyfloat \<Rightarrow> bool" where
  "negative (Finite q) = (q < 0)"
| "negative NegZero = True"
| "negative NegInf = True"
| "negative x = False"

fun fneg :: "pyfloat \<Rightarrow> pyfloat" where
  "fneg (Finite q) = (if q = 0 then NegZero else Finite (- q))"
| "fneg NegZero = Finite 0"
| "fneg PosInf = NegInf"
| "fneg NegInf = PosInf"
| "fneg NaN = NaN"

text \<open>
  An exact sum of zero is the positive zero, unless both operands are the negative zero.
  The sign of a product or quotient is the product of the signs of the operands.
\<close>

definition fadd :: "pyfloat \<Rightarrow> pyfloat \<Rightarrow> pyfloat" where
  "fadd x y =
     (if x = NaN \<or> y = NaN then NaN
      else if is_finite x \<and> is_finite y then
        (if x = NegZero \<and> y = NegZero then NegZero else round_double (fval x + fval y))
      else if is_finite x then y
      else if is_finite y then x
      else if x = y then x else NaN)"

definition fsub :: "pyfloat \<Rightarrow> pyfloat \<Rightarrow> pyfloat" where
  "fsub x y = fadd x (fneg y)"

definition fmul :: "pyfloat \<Rightarrow> pyfloat \<Rightarrow> pyfloat" where
  "fmul x y =
     (if x = NaN \<or> y = NaN then NaN
      else if is_finite x \<and> is_finite y then
        (if is_zero x \<or> is_zero y then zero (negative x \<noteq> negative y)
         else round_double (fval x * fval y))
      else if is_zero x \<or> is_zero y then NaN
      else infinity (negative x \<noteq> negative y))"

text \<open>Division by a float that is not zero (the caller has raised for zero).\<close>

definition fdiv :: "pyfloat \<Rightarrow> pyfloat \<Rightarrow> pyfloat" where
  "fdiv x y =
     (if x = NaN \<or> y = NaN then NaN
      else if is_finite x \<and> is_finite y then
        (if is_zero x then zero (negative x \<noteq> negative y)
         else round_double (fval x / fval y))
      else if is_finite x then zero (negative x \<noteq> negative y)
      else if is_finite y then infinity (negative x \<noteq> negative y)
      else NaN)"

subsection \<open>The operators \<open>+\<close>, \<open>-\<close>, \<open>*\<close>, \<open>/\<close> and the call of a value\<close>

text \<open>
  An operation on an \<open>int\<close> and a \<open>float\<close> converts the \<open>int\<close> to \<open>float\<close> first, which
  raises \<open>OverflowError\<close> when it is too large. Strings and lists support \<open>+\<close>
  (concatenation) and \<open>*\<close> with an \<open>int\<close> (repetition; the count has to fit the signed
  64-bit index type, and a negative count gives the empty sequence). Every other
  combination of operand types is a \<open>TypeError\<close>.
\<close>

fun is_number :: "val \<Rightarrow> bool" where
  "is_number (VInt i) = True"
| "is_number (VFloat x) = True"
| "is_number v = False"

fun to_float :: "val \<Rightarrow> exn + pyfloat" where
  "to_float (VFloat x) = Inr x"
| "to_float (VInt i) =
     (case round_double (of_int i) of
        PosInf \<Rightarrow> Inl OverflowError
      | NegInf \<Rightarrow> Inl OverflowError
      | x \<Rightarrow> Inr x)"
| "to_float v = Inl TypeError"

definition float_op :: "(pyfloat \<Rightarrow> pyfloat \<Rightarrow> exn + pyfloat) \<Rightarrow> val \<Rightarrow> val \<Rightarrow> exn + val" where
  "float_op f a b =
     (if is_number a \<and> is_number b then
        (case to_float a of
           Inl e \<Rightarrow> Inl e
         | Inr x \<Rightarrow>
             (case to_float b of
                Inl e \<Rightarrow> Inl e
              | Inr y \<Rightarrow> (case f x y of Inl e \<Rightarrow> Inl e | Inr z \<Rightarrow> Inr (VFloat z))))
      else Inl TypeError)"

definition repeat :: "'a list \<Rightarrow> int \<Rightarrow> exn + 'a list" where
  "repeat xs n =
     (if n < - (2 ^ 63) \<or> 2 ^ 63 \<le> n then Inl OverflowError
      else Inr (concat (replicate (nat n) xs)))"

fun py_add :: "val \<Rightarrow> val \<Rightarrow> exn + val" where
  "py_add (VInt a) (VInt b) = Inr (VInt (a + b))"
| "py_add (VStr a) (VStr b) = Inr (VStr (a @ b))"
| "py_add (VList a) (VList b) = Inr (VList (a @ b))"
| "py_add a b = float_op (\<lambda>x y. Inr (fadd x y)) a b"

fun py_sub :: "val \<Rightarrow> val \<Rightarrow> exn + val" where
  "py_sub (VInt a) (VInt b) = Inr (VInt (a - b))"
| "py_sub a b = float_op (\<lambda>x y. Inr (fsub x y)) a b"

fun py_mul :: "val \<Rightarrow> val \<Rightarrow> exn + val" where
  "py_mul (VInt a) (VInt b) = Inr (VInt (a * b))"
| "py_mul (VStr a) (VInt n) = (case repeat a n of Inl e \<Rightarrow> Inl e | Inr s \<Rightarrow> Inr (VStr s))"
| "py_mul (VInt n) (VStr a) = (case repeat a n of Inl e \<Rightarrow> Inl e | Inr s \<Rightarrow> Inr (VStr s))"
| "py_mul (VList a) (VInt n) = (case repeat a n of Inl e \<Rightarrow> Inl e | Inr s \<Rightarrow> Inr (VList s))"
| "py_mul (VInt n) (VList a) = (case repeat a n of Inl e \<Rightarrow> Inl e | Inr s \<Rightarrow> Inr (VList s))"
| "py_mul a b = float_op (\<lambda>x y. Inr (fmul x y)) a b"

text \<open>
  \<open>int / int\<close> is the exact quotient, rounded once; it raises \<open>OverflowError\<close> when the
  quotient is too large for a float.
\<close>

fun py_truediv :: "val \<Rightarrow> val \<Rightarrow> exn + val" where
  "py_truediv (VInt a) (VInt b) =
     (if b = 0 then Inl ZeroDivisionError
      else if a = 0 then Inr (VFloat (zero (b < 0)))
      else case round_double (of_int a / of_int b) of
             PosInf \<Rightarrow> Inl OverflowError
           | NegInf \<Rightarrow> Inl OverflowError
           | x \<Rightarrow> Inr (VFloat x))"
| "py_truediv a b =
     float_op (\<lambda>x y. if is_zero y then Inl ZeroDivisionError else Inr (fdiv x y)) a b"

fun apply_binop :: "binop \<Rightarrow> val \<Rightarrow> val \<Rightarrow> exn + val" where
  "apply_binop Add a b = py_add a b"
| "apply_binop Sub a b = py_sub a b"
| "apply_binop Mul a b = py_mul a b"
| "apply_binop TrueDiv a b = py_truediv a b"

text \<open>\<open>op(n1, n2)\<close>: only a lambda and the exception class can be called.\<close>

fun call :: "val \<Rightarrow> val \<Rightarrow> val \<Rightarrow> exn + val" where
  "call (VLambda b) x y = apply_binop b x y"
| "call VClass_ParserError x y = Inr (VInstance_ParserError [x, y])"
| "call v x y = Inl TypeError"

subsection \<open>\<open>in\<close>, \<open>"".join\<close> and \<open>eval\<close>\<close>

text \<open>
  \<open>x in s\<close> for a string \<open>s\<close> tests whether the string \<open>x\<close> occurs in \<open>s\<close>. The predicates
  of this module receive only one-character strings, taken from the input by \<open>pop\<close>.
\<close>

fun contains :: "string \<Rightarrow> val \<Rightarrow> bool" where
  "contains s (VStr x) = sublist x s"
| "contains s v = False"

text \<open>\<open>"".join(x)\<close> concatenates the strings that iterating \<open>x\<close> yields.\<close>

fun str_items :: "val list \<Rightarrow> exn + string" where
  "str_items [] = Inr []"
| "str_items (VStr s # xs) = (case str_items xs of Inl e \<Rightarrow> Inl e | Inr t \<Rightarrow> Inr (s @ t))"
| "str_items (v # xs) = Inl TypeError"

fun join :: "val \<Rightarrow> exn + string" where
  "join (VList xs) = str_items xs"
| "join (VStr s) = Inr s"
| "join v = Inl TypeError"

text \<open>
  \<open>eval\<close> is called by \<open>digits\<close> alone, on a text of decimal digits and full stops. Such a
  text is a Python expression only when it is one number token or the token \<open>...\<close>:
  an integer literal (digits without a superfluous leading zero), a float literal
  (one full stop with a digit before or after it), or the \<open>Ellipsis\<close> literal. Anything
  else is a \<open>SyntaxError\<close>. A float literal denotes the nearest binary64 number.
\<close>

definition is_digit :: "char \<Rightarrow> bool" where
  "is_digit c = (c \<in> set ''0123456789'')"

definition digit_value :: "char \<Rightarrow> int" where
  "digit_value c = int (of_char c) - 48"

definition decimal :: "string \<Rightarrow> int" where
  "decimal ds = foldl (\<lambda>n c. 10 * n + digit_value c) 0 ds"

definition eval :: "string \<Rightarrow> exn + val" where
  "eval text =
     (if text = ''...'' then Inr VEllipsis
      else let whole = takeWhile is_digit text; rest = dropWhile is_digit text
           in case rest of
                [] \<Rightarrow>
                  if whole \<noteq> [] \<and> (hd whole \<noteq> CHR ''0'' \<or> (\<forall>c \<in> set whole. c = CHR ''0''))
                  then Inr (VInt (decimal whole))
                  else Inl SyntaxError
              | c # fraction \<Rightarrow>
                  if c = CHR ''.'' \<and> (\<forall>d \<in> set fraction. is_digit d) \<and> (whole \<noteq> [] \<or> fraction \<noteq> [])
                  then Inr (VFloat (round_double
                         (of_int (decimal (whole @ fraction)) / 10 ^ length fraction)))
                  else Inl SyntaxError)"


section \<open>The class \<open>Parser\<close>\<close>

datatype parser = Parser "(string \<Rightarrow> outcome) option"

fun parse :: "parser \<Rightarrow> string \<Rightarrow> outcome" where
  "parse (Parser None) context = Some (Return VNone context)"
| "parse (Parser (Some func)) context = func context"

definition or_else :: "parser \<Rightarrow> parser \<Rightarrow> parser" where
  "or_else self other = Parser (Some (\<lambda>context.
     case parse self context of
       Some (Raise (ParserError m)) \<Rightarrow> parse other context
     | r \<Rightarrow> r))"

definition ret :: "val \<Rightarrow> parser" where
  "ret v = Parser (Some (\<lambda>c. Some (Return v c)))"

definition bind :: "parser \<Rightarrow> (val \<Rightarrow> parser) \<Rightarrow> parser" where
  "bind self f = Parser (Some (\<lambda>context.
     case parse self context of
       None \<Rightarrow> None
     | Some (Raise e) \<Rightarrow> Some (Raise e)
     | Some (Return a context') \<Rightarrow> parse (f a) context'))"

text \<open>A generator body that raises before its next \<open>yield\<close> makes the step raise.\<close>

definition raise :: "exn \<Rightarrow> parser" where
  "raise e = Parser (Some (\<lambda>c. Some (Raise e)))"

definition pick :: parser where
  "pick = Parser (Some (\<lambda>context.
     case context of
       [] \<Rightarrow> Some (Raise (ParserError Unexpected_EOF))
     | ch # rest \<Rightarrow> Some (Return (VStr [ch]) context)))"

definition pop :: parser where
  "pop = Parser (Some (\<lambda>context.
     case context of
       [] \<Rightarrow> Some (Raise (ParserError Unexpected_EOF))
     | ch # rest \<Rightarrow> Some (Return (VStr [ch]) rest)))"

section \<open>Running the core combinators\<close>

lemma parse_ret: "parse (ret v) c = Some (Return v c)"
  by (simp add: ret_def)

lemma parse_raise: "parse (raise e) c = Some (Raise e)"
  by (simp add: raise_def)

lemma parse_bind:
  "parse (bind p f) c =
     (case parse p c of
        None \<Rightarrow> None
      | Some (Raise e) \<Rightarrow> Some (Raise e)
      | Some (Return a c') \<Rightarrow> parse (f a) c')"
  by (simp add: bind_def)

lemma parse_or_else:
  "parse (or_else p q) c =
     (case parse p c of
        Some (Raise (ParserError m)) \<Rightarrow> parse q c
      | r \<Rightarrow> r)"
  by (simp add: or_else_def)

lemma parse_pop_Nil: "parse pop [] = Some (Raise (ParserError Unexpected_EOF))"
  by (simp add: pop_def)

lemma parse_pop_Cons: "parse pop (ch # rest) = Some (Return (VStr [ch]) rest)"
  by (simp add: pop_def)

lemma parse_pick_Nil: "parse pick [] = Some (Raise (ParserError Unexpected_EOF))"
  by (simp add: pick_def)

lemma parse_pick_Cons: "parse pick (ch # rest) = Some (Return (VStr [ch]) (ch # rest))"
  by (simp add: pick_def)

section \<open>The sequencing protocol\<close>

text \<open>
  \<open>do(f)\<close> is a \<open>Parser\<close> that, each time it is run, starts the generator \<open>f()\<close> afresh
  and hands it to \<open>reduce\<close>. \<open>reduce\<close> takes the parser of the next \<open>yield\<close> and binds it to
  the rest of the generator, resumed with the parsed value; the parser that the generator
  returns ends the chain. The generator function is therefore written here as the chain
  of \<open>bind\<close>s that \<open>reduce\<close> builds from it, and \<open>do\<close> runs that chain.
\<close>

definition do :: "parser \<Rightarrow> parser" where
  "do body = Parser (Some (\<lambda>context. parse body context))"

definition sat :: "(val \<Rightarrow> bool) \<Rightarrow> parser" where
  "sat p = do (bind pop (\<lambda>ch. if p ch then ret ch else raise (ParserError (Unexpected ch))))"

definition char :: "val \<Rightarrow> parser" where
  "char ch = sat (\<lambda>x. x = ch)"

fun string_steps :: "string \<Rightarrow> val \<Rightarrow> parser" where
  "string_steps [] s = ret s"
| "string_steps (ch # rest) s = bind (char (VStr [ch])) (\<lambda>_. string_steps rest s)"

definition string :: "string \<Rightarrow> parser" where
  "string s = do (string_steps s (VStr s))"

lemma parse_do: "parse (do body) c = parse body c"
  by (simp add: do_def)

text \<open>
  The run of a combinator depends monotonically on the runs of its arguments: if they
  return more often, it does. These rules admit the recursive definitions below.
\<close>

lemma parse_Parser_mono [partial_function_mono]:
  "mono_option (\<lambda>f. G f c) \<Longrightarrow> mono_option (\<lambda>f. parse (Parser (Some (G f))) c)"
  by simp

lemma parse_if_mono [partial_function_mono]:
  "mono_option (\<lambda>f. parse (P f) c) \<Longrightarrow> mono_option (\<lambda>f. parse (Q f) c)
   \<Longrightarrow> mono_option (\<lambda>f. parse (if b then P f else Q f) c)"
  by (cases b) simp_all

lemma Let_inline_mono [partial_function_mono]:
  "mono_option (\<lambda>f. G f (X f)) \<Longrightarrow> mono_option (\<lambda>f. Let (X f) (G f))"
  by (simp add: Let_def)

lemma parse_do_mono [partial_function_mono]:
  "mono_option (\<lambda>f. parse (B f) c) \<Longrightarrow> mono_option (\<lambda>f. parse (do (B f)) c)"
  by (simp add: parse_do)

lemma parse_bind_mono [partial_function_mono]:
  assumes "mono_option (\<lambda>f. parse (P f) c)"
    and "\<And>a c'. mono_option (\<lambda>f. parse (F f a) c')"
  shows "mono_option (\<lambda>f. parse (bind (P f) (\<lambda>a. F f a)) c)"
proof -
  have 1: "option.le_fun f g \<Longrightarrow> option_ord (parse (P f) c) (parse (P g) c)" for f g
    using assms(1) by (simp add: monotone_on_def)
  have 2: "option.le_fun f g \<Longrightarrow> option_ord (parse (F f a) c') (parse (F g a) c')" for a c' f g
    using assms(2) by (simp add: monotone_on_def)
  have "option_ord (parse (bind (P f) (\<lambda>a. F f a)) c) (parse (bind (P g) (\<lambda>a. F g a)) c)"
    if le: "option.le_fun f g" for f g
  proof (cases "parse (P f) c")
    case None
    then show ?thesis by (simp add: parse_bind flat_ord_def)
  next
    case (Some r)
    with 1 [OF le] have "parse (P g) c = Some r" by (simp add: flat_ord_def)
    with Some 2 [OF le] show ?thesis by (cases r) (simp_all add: parse_bind flat_ord_def)
  qed
  then show ?thesis
    by (simp add: monotone_on_def)
qed

lemma parse_or_else_mono [partial_function_mono]:
  assumes "mono_option (\<lambda>f. parse (P f) c)"
    and "mono_option (\<lambda>f. parse (Q f) c)"
  shows "mono_option (\<lambda>f. parse (or_else (P f) (Q f)) c)"
proof -
  have 1: "option.le_fun f g \<Longrightarrow> option_ord (parse (P f) c) (parse (P g) c)" for f g
    using assms(1) by (simp add: monotone_on_def)
  have 2: "option.le_fun f g \<Longrightarrow> option_ord (parse (Q f) c) (parse (Q g) c)" for f g
    using assms(2) by (simp add: monotone_on_def)
  have "option_ord (parse (or_else (P f) (Q f)) c) (parse (or_else (P g) (Q g)) c)"
    if le: "option.le_fun f g" for f g
  proof (cases "parse (P f) c")
    case None
    then show ?thesis by (simp add: parse_or_else flat_ord_def)
  next
    case (Some r)
    with 1 [OF le] have "parse (P g) c = Some r" by (simp add: flat_ord_def)
    with Some 2 [OF le] show ?thesis
      by (simp add: parse_or_else flat_ord_def split: result.split exn.split)
  qed
  then show ?thesis
    by (simp add: monotone_on_def)
qed

text \<open>
  The generator of \<open>many\<close> keeps the list \<open>result\<close> and loops: each round yields
  \<open>p | Parser.ret(ParserError)\<close>, and the value sent back either ends the loop or is
  appended. \<open>many_loop p result\<close> is the run of the rest of that generator from the top
  of the loop. The loop need not end, so the run is a partial function.

  \<open>reduce\<close> drives the generator through \<open>bind\<close>, and \<open>bound\<close> ends with
  \<open>return f(a).parse(context)\<close>: each round of the loop runs inside the call of the round
  before it and leaves two calls, \<open>Parser.parse\<close> and \<open>bound\<close>, on the stack. The model
  does not count calls. It describes the runs that stay within the interpreter's
  recursion limit; a run that reaches the limit (some hundred rounds under the default
  limit of 1000) raises \<open>RecursionError\<close> in Python, and has no counterpart here.
\<close>

partial_function (option) many_loop :: "parser \<Rightarrow> val list \<Rightarrow> string \<Rightarrow> outcome" where
  "many_loop p result context =
     parse (bind (or_else p (ret VClass_ParserError))
              (\<lambda>x. if x = VClass_ParserError then ret (VList result)
                   else Parser (Some (many_loop p (result @ [x]))))) context"

definition many :: "parser \<Rightarrow> parser" where
  "many p = do (Parser (Some (many_loop p [])))"

definition many1 :: "parser \<Rightarrow> parser" where
  "many1 p = do (bind p (\<lambda>x. bind (many p) (\<lambda>xs.
     case py_add (VList [x]) xs of Inl e \<Rightarrow> raise e | Inr v \<Rightarrow> ret v)))"

definition space :: parser where
  "space = Parser (Some (\<lambda>context.
     parse (many (sat (contains [CHR '' '', CHR 0x09, CHR 0x0A, CHR 0x0D]))) context))"

definition token :: "parser \<Rightarrow> parser" where
  "token p = do (bind p (\<lambda>a. bind space (\<lambda>_. ret a)))"

definition symb :: "string \<Rightarrow> parser" where
  "symb s = token (string s)"

definition operator :: "parser \<Rightarrow> parser \<Rightarrow> parser \<Rightarrow> parser" where
  "operator p_op p_n1 p_n2 = do (bind p_n1 (\<lambda>n1. bind p_op (\<lambda>op. bind p_n2 (\<lambda>n2.
     case call op n1 n2 of Inl e \<Rightarrow> raise e | Inr v \<Rightarrow> ret v))))"

definition digits :: parser where
  "digits = Parser (Some (\<lambda>context.
     let one = sat (contains ''1234567890.'') in
     case parse (token (many1 one)) context of
       None \<Rightarrow> None
     | Some (Raise e) \<Rightarrow> Some (Raise e)
     | Some (Return x context') \<Rightarrow>
         (case join x of
            Inl e \<Rightarrow> Some (Raise e)
          | Inr text \<Rightarrow>
              (case eval text of
                 Inl e \<Rightarrow> Some (Raise e)
               | Inr v \<Rightarrow> Some (Return v context')))))"

definition addop :: "parser \<Rightarrow> parser \<Rightarrow> parser" where
  "addop pn1 pn2 =
     (let plus = do (bind (symb ''+'') (\<lambda>_. ret (VLambda Add)));
          minus = do (bind (symb ''-'') (\<lambda>_. ret (VLambda Sub)))
      in operator (or_else plus minus) pn1 pn2)"

definition mulop :: "parser \<Rightarrow> parser \<Rightarrow> parser" where
  "mulop pn1 pn2 =
     (let times = do (bind (symb ''*'') (\<lambda>_. ret (VLambda Mul)));
          divide = do (bind (symb ''/'') (\<lambda>_. ret (VLambda TrueDiv)))
      in operator (or_else times divide) pn1 pn2)"

lemma parse_operator_mono [partial_function_mono]:
  assumes "mono_option (\<lambda>f. parse (P1 f) c)"
    and "\<And>c'. mono_option (\<lambda>f. parse (P2 f) c')"
  shows "mono_option (\<lambda>f. parse (operator p_op (P1 f) (P2 f)) c)"
  unfolding operator_def
  by (rule parse_do_mono parse_bind_mono assms option.const_mono)+

lemma parse_addop_mono [partial_function_mono]:
  assumes "mono_option (\<lambda>f. parse (P1 f) c)"
    and "\<And>c'. mono_option (\<lambda>f. parse (P2 f) c')"
  shows "mono_option (\<lambda>f. parse (addop (P1 f) (P2 f)) c)"
  unfolding addop_def Let_def
  by (rule parse_operator_mono assms)+

lemma parse_mulop_mono [partial_function_mono]:
  assumes "mono_option (\<lambda>f. parse (P1 f) c)"
    and "\<And>c'. mono_option (\<lambda>f. parse (P2 f) c')"
  shows "mono_option (\<lambda>f. parse (mulop (P1 f) (P2 f)) c)"
  unfolding mulop_def Let_def
  by (rule parse_operator_mono assms)+

section \<open>The grammar\<close>

text \<open>
  \<open>expr\<close>, \<open>term\<close> and \<open>factor\<close> are three \<open>Parser\<close> objects whose functions refer to one
  another through the module's globals. Their functions are defined together, as one
  partial function of the production and the input. (\<open>term\<close> is written \<open>term'\<close>.)
\<close>

datatype production = Expr | Term | Factor

partial_function (option) grammar :: "production \<Rightarrow> string \<Rightarrow> outcome" where
  "grammar production context =
     (case production of
        Expr \<Rightarrow>
          parse (or_else (addop (Parser (Some (grammar Term))) (Parser (Some (grammar Expr))))
                         (Parser (Some (grammar Term)))) context
      | Term \<Rightarrow>
          parse (or_else (mulop (Parser (Some (grammar Factor))) (Parser (Some (grammar Term))))
                         (Parser (Some (grammar Factor)))) context
      | Factor \<Rightarrow>
          (let parse_parenthesis =
                 do (bind (symb ''('') (\<lambda>_.
                     bind (Parser (Some (grammar Expr))) (\<lambda>n.
                     bind (symb '')'') (\<lambda>_. ret n))))
           in parse (or_else digits parse_parenthesis) context))"

definition expr :: parser where
  "expr = Parser (Some (grammar Expr))"

definition term' :: parser where
  "term' = Parser (Some (grammar Term))"

definition factor :: parser where
  "factor = Parser (Some (grammar Factor))"

section \<open>The notions used to state the properties\<close>

subsection \<open>Characters and texts\<close>

definition strs :: "string \<Rightarrow> val list" where
  "strs text = map (\<lambda>ch. VStr [ch]) text"

definition is_space :: "char \<Rightarrow> bool" where
  "is_space ch = (ch \<in> set [CHR '' '', CHR 0x09, CHR 0x0A, CHR 0x0D])"

definition is_digit_or_dot :: "char \<Rightarrow> bool" where
  "is_digit_or_dot ch = (ch \<in> set ''1234567890.'')"

text \<open>
  A valid number, as the specification means it: decimal digits with at most one decimal
  point, and at least one digit.
\<close>

definition valid_number :: "string \<Rightarrow> bool" where
  "valid_number text =
     ((\<exists>ch \<in> set text. is_digit ch) \<and>
      (\<forall>ch \<in> set text. is_digit ch \<or> ch = CHR ''.'') \<and>
      length (filter (\<lambda>ch. ch = CHR ''.'') text) \<le> 1)"

subsection \<open>What a parser does on all inputs\<close>

text \<open>
  \<open>runs p c vs\<close> runs \<open>p\<close> once for each element of \<open>vs\<close>, each run starting where the
  previous one stopped: it is the input left when these runs return, in order, exactly
  the values \<open>vs\<close>, and \<open>None\<close> otherwise.
\<close>

fun runs :: "parser \<Rightarrow> string \<Rightarrow> val list \<Rightarrow> string option" where
  "runs p c [] = Some c"
| "runs p c (v # vs) =
     (case parse p c of
        Some (Return v' c') \<Rightarrow> if v' = v then runs p c' vs else None
      | _ \<Rightarrow> None)"

definition terminating :: "parser \<Rightarrow> bool" where
  "terminating p = (\<forall>c. parse p c \<noteq> None)"

definition consuming :: "parser \<Rightarrow> bool" where
  "consuming p = (\<forall>c v c'. parse p c = Some (Return v c') \<longrightarrow> length c' < length c)"



definition leaves_suffix :: "parser \<Rightarrow> bool" where
  "leaves_suffix p = (\<forall>c v rest. parse p c = Some (Return v rest) \<longrightarrow> suffix rest c)"

text \<open>
  \<open>halts_within p c\<close>: on the input \<open>c\<close> the parser \<open>p\<close> returns or raises, and what it
  leaves when it returns is not longer than \<open>c\<close>; \<open>halts_shorter p c\<close>: it is shorter.
\<close>

definition halts_within :: "parser \<Rightarrow> string \<Rightarrow> bool" where
  "halts_within p c =
     (case parse p c of
        None \<Rightarrow> False
      | Some (Raise e) \<Rightarrow> True
      | Some (Return v rest) \<Rightarrow> length rest \<le> length c)"

definition halts_shorter :: "parser \<Rightarrow> string \<Rightarrow> bool" where
  "halts_shorter p c =
     (case parse p c of
        None \<Rightarrow> False
      | Some (Raise e) \<Rightarrow> True
      | Some (Return v rest) \<Rightarrow> length rest < length c)"

text \<open>The order in which the productions call one another on the same input.\<close>

fun rank :: "production \<Rightarrow> nat" where
  "rank Factor = 0"
| "rank Term = 1"
| "rank Expr = 2"

subsection \<open>The parsers of the public interface\<close>

text \<open>
  The parsers that can be built from the public names of the module. The function given
  to \<open>bind\<close> has to return such a parser for every value; the body of a \<open>do\<close> block is
  the chain of \<open>bind\<close>s of its steps, and may raise.
\<close>

inductive built :: "parser \<Rightarrow> bool" where
  built_Parser: "built (Parser None)"
| built_ret: "built (ret v)"
| built_raise: "built (raise e)"
| built_bind: "built p \<Longrightarrow> (\<And>a. built (f a)) \<Longrightarrow> built (bind p f)"
| built_or_else: "built p \<Longrightarrow> built q \<Longrightarrow> built (or_else p q)"
| built_pick: "built pick"
| built_pop: "built pop"
| built_do: "built body \<Longrightarrow> built (do body)"
| built_sat: "built (sat P)"
| built_char: "built (char ch)"
| built_string: "built (string s)"
| built_many: "built p \<Longrightarrow> built (many p)"
| built_many1: "built p \<Longrightarrow> built (many1 p)"
| built_space: "built space"
| built_token: "built p \<Longrightarrow> built (token p)"
| built_symb: "built (symb s)"
| built_operator: "built p_op \<Longrightarrow> built p_n1 \<Longrightarrow> built p_n2 \<Longrightarrow> built (operator p_op p_n1 p_n2)"
| built_addop: "built pn1 \<Longrightarrow> built pn2 \<Longrightarrow> built (addop pn1 pn2)"
| built_mulop: "built pn1 \<Longrightarrow> built pn2 \<Longrightarrow> built (mulop pn1 pn2)"
| built_expr: "built expr"
| built_term: "built term'"
| built_factor: "built factor"
| built_digits: "built digits"

subsection \<open>An example parser\<close>

text \<open>
  \<open>shout\<close> takes one character and yields it, except that for an exclamation mark it
  yields the class \<open>ParserError\<close>: a parser, written with \<open>bind\<close>, \<open>pop\<close> and \<open>ret\<close>, that
  succeeds with that class as its value.
\<close>

definition shout :: parser where
  "shout = bind pop (\<lambda>ch. if ch = VStr ''!'' then ret VClass_ParserError else ret ch)"

section \<open>The monad laws\<close>

text \<open>
  C6: \<open>ret\<close> and \<open>bind\<close> satisfy the three monad laws, as equalities of what \<open>parse\<close>
  does on every input: left identity, right identity and associativity.
\<close>

theorem monad_laws:
  "parse (bind (ret v) f) c = parse (f v) c \<and>
   parse (bind p ret) c = parse p c \<and>
   parse (bind (bind p f) g) c = parse (bind p (\<lambda>x. bind (f x) g)) c"
  by (simp add: parse_bind parse_ret split: option.split result.split)

section \<open>Running the parsers on a given input\<close>

lemma parse_many: "parse (many p) c = many_loop p [] c"
  by (simp add: many_def parse_do)

lemma parse_expr: "parse expr c = parse (or_else (addop term' expr) term') c"
  by (simp add: expr_def term'_def grammar.simps [of Expr])

lemma parse_term: "parse term' c = parse (or_else (mulop factor term') factor) c"
  by (simp add: term'_def factor_def grammar.simps [of Term])

lemma parse_factor:
  "parse factor c =
     parse (or_else digits
             (do (bind (symb ''('') (\<lambda>_. bind expr (\<lambda>n. bind (symb '')'') (\<lambda>_. ret n)))))) c"
  by (simp add: expr_def factor_def grammar.simps [of Factor])

lemma sublist_single: "sublist [ch] s = (ch \<in> set s)"
  by (auto simp: sublist_def in_set_conv_decomp)

text \<open>
  The equations that run a parser of the module on a concrete input. The definitions of
  the combinators are unfolded only under \<open>parse\<close>, and a \<open>case\<close> is entered only once
  the result it inspects is known, so unfolding the recursive productions stops.
\<close>

lemmas run_simps =
  parse_expr parse_term parse_factor parse_do parse_bind parse_or_else parse_ret parse_raise
  parse_pop_Nil parse_pop_Cons sat_def char_def string_def many_loop.simps parse_many
  many1_def space_def token_def symb_def operator_def digits_def addop_def mulop_def
  sublist_single eval_def is_digit_def decimal_def digit_value_def

lemma two_fifths:
  "py_truediv (VInt 2) (VInt 5) = Inr (VFloat (Finite (3602879701896397 / 9007199254740992)))"
  by code_simp

lemma ten_by_two_fifths:
  "py_truediv (VInt 10) (VFloat (Finite (3602879701896397 / 9007199254740992)))
     = Inr (VFloat (Finite 25))"
  by code_simp

section \<open>The grammar scenarios\<close>

text \<open>
  C1, as the code has it. No parser of the module skips whitespace before a token:
  \<open>token\<close> skips it after the token only, and \<open>expr\<close> starts with \<open>digits\<close> or \<open>(\<close>. On
  \<open>"  1 + 2  "\<close> every alternative meets the leading space, and \<open>expr\<close> raises
  \<open>ParserError("unexpected  ")\<close>.
\<close>

theorem expr_leading_whitespace_counterexample:
  "parse expr ''  1 + 2  '' = Some (Raise (ParserError (Unexpected (VStr '' ''))))"
  by (simp add: run_simps)

text \<open>
  C1, amended: on \<open>"1 + 2  "\<close>, without leading whitespace, \<open>expr\<close> returns 3 and the empty
  rest: the whitespace after each token, the trailing one included, is consumed. On
  every input that starts with a space, a tab, a newline or a carriage return \<open>expr\<close>
  raises \<open>ParserError\<close> for that character.
\<close>

theorem expr_whitespace:
  "parse expr ''1 + 2  '' = Some (Return (VInt 3) '''') \<and>
   (\<forall>ch \<in> set [CHR '' '', CHR 0x09, CHR 0x0A, CHR 0x0D]. \<forall>rest.
      parse expr (ch # rest) = Some (Raise (ParserError (Unexpected (VStr [ch])))))"
  by (simp add: run_simps)

theorem expr_whitespace_witness:
  "CHR 0x09 \<in> set [CHR '' '', CHR 0x09, CHR 0x0A, CHR 0x0D] \<and>
   parse expr (CHR 0x09 # ''7'') = Some (Raise (ParserError (Unexpected (VStr [CHR 0x09]))))"
  using expr_whitespace by simp

text \<open>
  C2, as the code has it. On \<open>"1+"\<close> the alternative \<open>addop(term, expr)\<close> raises
  \<open>ParserError("unexpected EOF")\<close> after the \<open>+\<close>; \<open>|\<close> catches it and runs the bare \<open>term\<close>
  on the whole input, which returns 1 and leaves \<open>"+"\<close>.
\<close>

theorem expr_dangling_operator_counterexample:
  "parse expr ''1+'' = Some (Return (VInt 1) ''+'')"
  by (simp add: run_simps)

text \<open>
  C2, amended: on \<open>"1+"\<close> the first alternative of \<open>expr\<close> raises
  \<open>ParserError("unexpected EOF")\<close>, and \<open>expr\<close> itself does not raise: it returns the value
  1 with the remaining input \<open>"+"\<close>.
\<close>

theorem expr_dangling_operator:
  "parse (addop term' expr) ''1+'' = Some (Raise (ParserError Unexpected_EOF)) \<and>
   parse term' ''1+'' = Some (Return (VInt 1) ''+'') \<and>
   parse expr ''1+'' = Some (Return (VInt 1) ''+'')"
  by (simp add: run_simps)

text \<open>
  C4: on \<open>"10/2/5"\<close> \<open>expr\<close> returns the float 25.0 and the empty rest. \<open>term\<close> parses
  \<open>factor\<close>, the operator and then \<open>term\<close> again, so the right operand of the first \<open>/\<close> is
  the value of \<open>"2/5"\<close>, the float nearest to 0.4, and 10 divided by it rounds to 25.0.
\<close>

theorem expr_division_right_associative:
  "parse expr ''10/2/5'' = Some (Return (VFloat (Finite 25)) '''') \<and>
   parse term' ''2/5'' = Some (Return (VFloat (Finite (3602879701896397 / 9007199254740992))) '''') \<and>
   py_truediv (VInt 10) (VFloat (Finite (3602879701896397 / 9007199254740992)))
     = Inr (VFloat (Finite 25))"
  by (simp add: run_simps two_fifths ten_by_two_fifths del: py_truediv.simps)

section \<open>Alternation\<close>

text \<open>
  C3: if \<open>p1\<close> raises \<open>ParserError\<close> on an input, \<open>p1 | p2\<close> does on that input exactly
  what \<open>p2\<close> does on it, whatever \<open>p1\<close> had consumed; in particular it raises what \<open>p2\<close>
  raises.
\<close>

theorem or_else_fallback:
  assumes "parse p1 c = Some (Raise (ParserError m))"
  shows "parse (or_else p1 p2) c = parse p2 c \<and>
         (\<forall>e. parse p2 c = Some (Raise e) \<longrightarrow> parse (or_else p1 p2) c = Some (Raise e))"
  using assms by (simp add: parse_or_else)

theorem or_else_fallback_witness:
  "parse (symb ''*'') ''/ 2'' = Some (Raise (ParserError (Unexpected (VStr ''/'')))) \<and>
   parse (or_else (symb ''*'') (symb ''/'')) ''/ 2'' = parse (symb ''/'') ''/ 2'' \<and>
   parse (symb ''/'') ''/ 2'' = Some (Return (VStr ''/'') ''2'')"
proof -
  have h: "parse (symb ''*'') ''/ 2'' = Some (Raise (ParserError (Unexpected (VStr ''/''))))"
    by (simp add: run_simps)
  have "parse (symb ''/'') ''/ 2'' = Some (Return (VStr ''/'') ''2'')"
    by (simp add: run_simps)
  with h or_else_fallback [OF h, of "symb ''/''"] show ?thesis
    by simp
qed

text \<open>
  C9: \<open>|\<close> catches \<open>ParserError\<close> only. If the first alternative raises anything else,
  \<open>p1 | p2\<close> raises it and the outcome does not depend on \<open>p2\<close>, which is not run. So when
  \<open>digits\<close> raises the error of \<open>eval\<close>, \<open>factor\<close> raises it without trying the
  parenthesised expression, and so do \<open>term\<close> and \<open>expr\<close>.
\<close>

theorem or_else_propagates:
  assumes "\<not> is_ParserError e"
  shows "(parse p1 c = Some (Raise e) \<longrightarrow> parse (or_else p1 p2) c = Some (Raise e)) \<and>
         (parse digits c = Some (Raise e) \<longrightarrow>
            parse factor c = Some (Raise e) \<and> parse term' c = Some (Raise e) \<and>
            parse expr c = Some (Raise e))"
proof -
  have 1: "parse (or_else p q) c = Some (Raise e)" if "parse p c = Some (Raise e)" for p q
    using that assms by (cases e) (simp_all add: parse_or_else)
  have 2: "parse (mulop p q) c = Some (Raise e)" "parse (addop p q) c = Some (Raise e)"
    if "parse p c = Some (Raise e)" for p q
    using that by (simp_all add: mulop_def addop_def operator_def parse_do parse_bind)
  show ?thesis
    by (auto simp: parse_expr parse_term parse_factor intro!: 1 2)
qed

theorem or_else_propagates_witness:
  "\<not> is_ParserError SyntaxError \<and>
   parse digits ''1..2'' = Some (Raise SyntaxError) \<and>
   parse (or_else digits (Parser (Some (\<lambda>c. None)))) ''1..2'' = Some (Raise SyntaxError) \<and>
   parse factor ''1..2'' = Some (Raise SyntaxError) \<and>
   parse expr ''1..2'' = Some (Raise SyntaxError)"
proof -
  have h: "parse digits ''1..2'' = Some (Raise SyntaxError)"
    by (simp add: run_simps)
  with or_else_propagates [of SyntaxError digits "''1..2''" "Parser (Some (\<lambda>c. None))"]
  show ?thesis by simp
qed

section \<open>Repetition of a one-character parser\<close>

lemma parse_sat:
  "parse (sat P) c =
     (case c of
        [] \<Rightarrow> Some (Raise (ParserError Unexpected_EOF))
      | ch # rest \<Rightarrow>
          if P (VStr [ch]) then Some (Return (VStr [ch]) rest)
          else Some (Raise (ParserError (Unexpected (VStr [ch])))))"
  by (cases c) (simp_all add: sat_def parse_do parse_bind parse_pop_Nil parse_pop_Cons
      parse_ret parse_raise)

lemma many_loop_sat:
  "many_loop (sat P) acc c =
     Some (Return (VList (acc @ strs (takeWhile (\<lambda>ch. P (VStr [ch])) c)))
                  (dropWhile (\<lambda>ch. P (VStr [ch])) c))"
proof (induction c arbitrary: acc)
  case Nil
  show ?case
    by (subst many_loop.simps) (simp add: parse_bind parse_or_else parse_sat parse_ret strs_def)
next
  case (Cons ch rest)
  show ?case
    by (subst many_loop.simps)
      (simp add: parse_bind parse_or_else parse_sat parse_ret strs_def Cons.IH)
qed

lemma parse_many_sat:
  "parse (many (sat P)) c =
     Some (Return (VList (strs (takeWhile (\<lambda>ch. P (VStr [ch])) c)))
                  (dropWhile (\<lambda>ch. P (VStr [ch])) c))"
  by (simp add: parse_many many_loop_sat)

lemma parse_many1_sat:
  "parse (many1 (sat P)) c =
     (if takeWhile (\<lambda>ch. P (VStr [ch])) c = []
      then Some (Raise (ParserError (case c of [] \<Rightarrow> Unexpected_EOF | ch # rest \<Rightarrow> Unexpected (VStr [ch]))))
      else Some (Return (VList (strs (takeWhile (\<lambda>ch. P (VStr [ch])) c)))
                        (dropWhile (\<lambda>ch. P (VStr [ch])) c)))"
  by (cases c)
    (simp_all add: many1_def parse_do parse_bind parse_sat parse_many_sat parse_ret strs_def)

lemma parse_space:
  "parse space c = Some (Return (VList (strs (takeWhile is_space c))) (dropWhile is_space c))"
proof -
  have "(\<lambda>ch. contains [CHR '' '', CHR 0x09, CHR 0x0A, CHR 0x0D] (VStr [ch])) = is_space"
    by (simp add: fun_eq_iff sublist_single is_space_def)
  then show ?thesis
    by (simp add: space_def parse_many_sat)
qed

lemma parse_token:
  "parse (token p) c =
     (case parse p c of
        None \<Rightarrow> None
      | Some (Raise e) \<Rightarrow> Some (Raise e)
      | Some (Return a c') \<Rightarrow> Some (Return a (dropWhile is_space c')))"
  by (simp add: token_def parse_do parse_bind parse_space parse_ret
      split: option.split result.split)

lemma str_items_strs: "str_items (strs s) = Inr s"
  by (induction s) (simp_all add: strs_def)

text \<open>What \<open>digits\<close> does, on every input.\<close>

lemma parse_digits:
  "parse digits c =
     (if takeWhile is_digit_or_dot c = []
      then Some (Raise (ParserError (case c of [] \<Rightarrow> Unexpected_EOF | ch # rest \<Rightarrow> Unexpected (VStr [ch]))))
      else case eval (takeWhile is_digit_or_dot c) of
             Inl e \<Rightarrow> Some (Raise e)
           | Inr v \<Rightarrow> Some (Return v (dropWhile is_space (dropWhile is_digit_or_dot c))))"
proof -
  have "(\<lambda>ch. contains ''1234567890.'' (VStr [ch])) = is_digit_or_dot"
    by (simp add: fun_eq_iff sublist_single is_digit_or_dot_def)
  then show ?thesis
    by (simp add: digits_def parse_token parse_many1_sat str_items_strs)
qed

section \<open>The conversion of the collected text\<close>

lemma not_digit_dot: "\<not> is_digit (CHR ''.'')"
  by (simp add: is_digit_def)

lemma digit_or_dot_cases: "is_digit_or_dot ch \<longleftrightarrow> is_digit ch \<or> ch = CHR ''.''"
  by (auto simp: is_digit_or_dot_def is_digit_def)

lemma eval_invalid:
  assumes alphabet: "\<forall>ch \<in> set s. is_digit_or_dot ch"
    and invalid: "\<not> valid_number s"
    and "s \<noteq> ''...''"
  shows "eval s = Inl SyntaxError"
proof (cases "dropWhile is_digit s")
  case Nil
  then have all: "\<forall>ch \<in> set s. is_digit ch"
    by (simp add: dropWhile_eq_Nil_conv)
  then have "filter (\<lambda>ch. ch = CHR ''.'') s = []"
    using not_digit_dot by (auto simp: filter_empty_conv)
  with all invalid have "s = []"
    by (cases s) (auto simp: valid_number_def)
  with assms(3) show ?thesis
    by (simp add: eval_def)
next
  case (Cons ch fraction)
  let ?whole = "takeWhile is_digit s"
  have s: "s = ?whole @ ch # fraction"
    using Cons takeWhile_dropWhile_id [of is_digit s] by simp
  have "\<not> is_digit ch"
    using Cons by (metis hd_dropWhile list.distinct(1) list.sel(1))
  with alphabet s have ch: "ch = CHR ''.''"
    by (metis digit_or_dot_cases in_set_conv_decomp)
  have whole: "\<forall>d \<in> set ?whole. is_digit d"
    by (auto dest: set_takeWhileD)
  have "\<not> ((\<forall>d \<in> set fraction. is_digit d) \<and> (?whole \<noteq> [] \<or> fraction \<noteq> []))"
  proof
    assume ok: "(\<forall>d \<in> set fraction. is_digit d) \<and> (?whole \<noteq> [] \<or> fraction \<noteq> [])"
    then have "\<exists>d \<in> set s. is_digit d"
      using whole by (subst s) (cases ?whole; cases fraction; auto)
    moreover have "\<forall>d \<in> set s. is_digit d \<or> d = CHR ''.''"
      using whole ok ch by (subst s) auto
    moreover have "filter (\<lambda>d. d = CHR ''.'') ?whole = []" "filter (\<lambda>d. d = CHR ''.'') fraction = []"
      using whole ok not_digit_dot by (auto simp: filter_empty_conv)
    then have "length (filter (\<lambda>d. d = CHR ''.'') s) \<le> 1"
      using ch by (subst s) simp
    ultimately show False
      using invalid by (simp add: valid_number_def)
  qed
  with Cons ch assms(3) show ?thesis
    by (simp add: eval_def Let_def)
qed

text \<open>
  What \<open>digits\<close> does with the text it has collected: it is the longest non-empty run of
  digits and decimal points at the head of the input, and the value or the exception of
  \<open>eval\<close> on it is the outcome. Every text that is not a valid number, other than \<open>...\<close>,
  makes \<open>eval\<close>, and so \<open>digits\<close>, raise \<open>SyntaxError\<close>, which is not the \<open>ParserError\<close>
  of a failed parse.
\<close>

lemma digits_conversion:
  assumes "text = takeWhile is_digit_or_dot c" and "text \<noteq> []"
  shows "parse digits c =
           (case eval text of
              Inl e \<Rightarrow> Some (Raise e)
            | Inr v \<Rightarrow> Some (Return v (dropWhile is_space (dropWhile is_digit_or_dot c)))) \<and>
         (\<not> valid_number text \<and> text \<noteq> ''...'' \<longrightarrow>
            parse digits c = Some (Raise SyntaxError) \<and> \<not> is_ParserError SyntaxError)"
proof -
  have "\<forall>ch \<in> set text. is_digit_or_dot ch"
    using assms(1) by (auto dest: set_takeWhileD)
  then have "eval text = Inl SyntaxError" if "\<not> valid_number text" "text \<noteq> ''...''"
    using that by (rule eval_invalid)
  then show ?thesis
    using assms by (simp add: parse_digits)
qed

lemma digits_two_points:
  "\<not> valid_number ''1..2'' \<and> parse digits ''1..2 +3'' = Some (Raise SyntaxError)"
  by (simp add: valid_number_def parse_digits is_digit_or_dot_def eval_def is_digit_def)

text \<open>
  \<open>eval\<close> also raises \<open>SyntaxError\<close> for an integer text with a superfluous leading zero,
  which Python does not accept as a literal.
\<close>

lemma digits_leading_zero:
  "valid_number ''01'' \<and> parse digits ''01'' = Some (Raise SyntaxError)"
  by (simp add: valid_number_def parse_digits is_digit_or_dot_def eval_def is_digit_def)

lemma ellipsis_not_a_number: "\<not> valid_number ''...''"
  by (simp add: valid_number_def is_digit_def)

text \<open>
  C8, where the code departs from it. \<open>digits\<close> is to fail, with an error that is not
  the parse failure, whenever the collected text is not a valid number. The code leaves
  that check to \<open>eval\<close>, which rejects every such text but one: \<open>...\<close>, three decimal
  points and no digit, is the literal of the \<open>Ellipsis\<close> object. On it \<open>digits\<close> does not
  fail but returns \<open>Ellipsis\<close> as the number, and so does \<open>expr\<close> on the input line \<open>...\<close>.
\<close>

theorem digits_ellipsis:
  "parse digits ''...'' = Some (Return VEllipsis '''') \<and>
   parse expr ''...'' = Some (Return VEllipsis '''')"
  by (simp add: run_simps)

section \<open>Repetition\<close>

lemma many_loop_step:
  "many_loop p acc c =
     (case parse p c of
        None \<Rightarrow> None
      | Some (Return x c') \<Rightarrow>
          if x = VClass_ParserError then Some (Return (VList acc) c')
          else many_loop p (acc @ [x]) c'
      | Some (Raise (ParserError m)) \<Rightarrow> Some (Return (VList acc) c)
      | Some (Raise e) \<Rightarrow> Some (Raise e))"
  by (subst many_loop.simps)
    (simp add: parse_bind parse_or_else parse_ret split: option.split result.split exn.split)

lemma many_loop_sentinel:
  assumes "runs p c vs = Some c'"
    and "VClass_ParserError \<notin> set vs"
    and "parse p c' = Some (Return VClass_ParserError c'')"
  shows "many_loop p acc c = Some (Return (VList (acc @ vs)) c'')"
  using assms
proof (induction vs arbitrary: acc c)
  case Nil
  then show ?case
    by (simp add: many_loop_step)
next
  case (Cons v vs)
  from Cons.prems(1) obtain c1 where 1: "parse p c = Some (Return v c1)" and 2: "runs p c1 vs = Some c'"
    by (auto split: option.splits result.splits if_splits)
  from Cons.prems(2) have 3: "v \<noteq> VClass_ParserError" "VClass_ParserError \<notin> set vs"
    by auto
  have "many_loop p (acc @ [v]) c1 = Some (Return (VList ((acc @ [v]) @ vs)) c'')"
    using 2 3(2) Cons.prems(3) by (rule Cons.IH)
  with 1 3(1) show ?case
    by (simp add: many_loop_step)
qed

text \<open>
  C10: \<open>many\<close> uses the class \<open>ParserError\<close> as the value that ends its loop. If, after
  successive runs of \<open>p\<close> that returned the values \<open>vs\<close>, a run of \<open>p\<close> succeeds with the
  class \<open>ParserError\<close> as its value, \<open>many(p)\<close> stops there and returns \<open>vs\<close>: the value of
  that last success is dropped (what it consumed stays consumed).
\<close>

theorem many_sentinel:
  assumes "runs p c vs = Some c'"
    and "VClass_ParserError \<notin> set vs"
    and "parse p c' = Some (Return VClass_ParserError c'')"
  shows "parse (many p) c = Some (Return (VList vs) c'')"
  using many_loop_sentinel [OF assms, of "[]"] by (simp add: parse_many)

text \<open>
  On \<open>"ab!cd"\<close> the parser \<open>shout\<close> succeeds five times in a row, and \<open>many(shout)\<close>
  returns the two values before the exclamation mark only.
\<close>

theorem many_sentinel_witness:
  "runs shout ''ab!cd'' [VStr ''a'', VStr ''b''] = Some ''!cd'' \<and>
   VClass_ParserError \<notin> set [VStr ''a'', VStr ''b''] \<and>
   parse shout ''!cd'' = Some (Return VClass_ParserError ''cd'') \<and>
   parse shout ''cd'' = Some (Return (VStr ''c'') ''d'') \<and>
   parse (many shout) ''ab!cd'' = Some (Return (VList [VStr ''a'', VStr ''b'']) ''cd'')"
proof -
  have 1: "runs shout ''ab!cd'' [VStr ''a'', VStr ''b''] = Some ''!cd''"
    by (simp add: shout_def parse_bind parse_pop_Cons parse_ret)
  have 2: "VClass_ParserError \<notin> set [VStr ''a'', VStr ''b'']"
    by simp
  have 3: "parse shout ''!cd'' = Some (Return VClass_ParserError ''cd'')"
    by (simp add: shout_def parse_bind parse_pop_Cons parse_ret)
  have 4: "parse shout ''cd'' = Some (Return (VStr ''c'') ''d'')"
    by (simp add: shout_def parse_bind parse_pop_Cons parse_ret)
  from 1 2 3 4 many_sentinel [OF 1 2 3] show ?thesis
    by (intro conjI)
qed


lemma consuming_digits: "consuming digits"
proof -
  have "length (dropWhile is_space (dropWhile is_digit_or_dot c)) < length c"
    if "takeWhile is_digit_or_dot c \<noteq> []" for c
  proof -
    have "length (dropWhile is_space (dropWhile is_digit_or_dot c))
            \<le> length (dropWhile is_digit_or_dot c)"
      by (rule length_dropWhile_le)
    moreover have "length c = length (takeWhile is_digit_or_dot c) + length (dropWhile is_digit_or_dot c)"
      by (metis length_append takeWhile_dropWhile_id)
    moreover have "0 < length (takeWhile is_digit_or_dot c)"
      using that by simp
    ultimately show ?thesis
      by linarith
  qed
  then show ?thesis
    by (auto simp: consuming_def parse_digits split: if_splits sum.splits)
qed




section \<open>The remaining input is a suffix of the input\<close>

lemma leaves_suffixI:
  "(\<And>c v rest. parse p c = Some (Return v rest) \<Longrightarrow> suffix rest c) \<Longrightarrow> leaves_suffix p"
  by (simp add: leaves_suffix_def)

lemma leaves_suffixD:
  "leaves_suffix p \<Longrightarrow> parse p c = Some (Return v rest) \<Longrightarrow> suffix rest c"
  by (simp add: leaves_suffix_def)

lemma ls_Parser: "leaves_suffix (Parser None)"
  by (simp add: leaves_suffix_def)

lemma ls_ret: "leaves_suffix (ret v)"
  by (simp add: leaves_suffix_def parse_ret)

lemma ls_raise: "leaves_suffix (raise e)"
  by (simp add: leaves_suffix_def parse_raise)

lemma ls_pick: "leaves_suffix pick"
  by (auto simp: leaves_suffix_def pick_def split: list.splits)

lemma ls_pop: "leaves_suffix pop"
  by (auto simp: leaves_suffix_def pop_def suffix_Cons split: list.splits)

lemma ls_bind:
  assumes "leaves_suffix p" and "\<And>a. leaves_suffix (f a)"
  shows "leaves_suffix (bind p f)"
proof (rule leaves_suffixI)
  fix c v rest
  assume "parse (bind p f) c = Some (Return v rest)"
  then obtain a c' where 1: "parse p c = Some (Return a c')" and 2: "parse (f a) c' = Some (Return v rest)"
    by (auto simp: parse_bind split: option.splits result.splits)
  from assms(1) 1 have "suffix c' c"
    by (rule leaves_suffixD)
  moreover from assms(2) 2 have "suffix rest c'"
    by (rule leaves_suffixD)
  ultimately show "suffix rest c"
    by (rule suffix_order.trans [rotated])
qed

lemma ls_or_else:
  assumes "leaves_suffix p" and "leaves_suffix q"
  shows "leaves_suffix (or_else p q)"
proof (rule leaves_suffixI)
  fix c v rest
  assume "parse (or_else p q) c = Some (Return v rest)"
  then have "parse p c = Some (Return v rest) \<or> parse q c = Some (Return v rest)"
    by (auto simp: parse_or_else split: option.splits result.splits exn.splits)
  with assms show "suffix rest c"
    by (auto dest: leaves_suffixD)
qed

lemma ls_do: "leaves_suffix body \<Longrightarrow> leaves_suffix (do body)"
  by (simp add: leaves_suffix_def parse_do)

lemma ls_Parser_Some:
  "(\<And>c v rest. func c = Some (Return v rest) \<Longrightarrow> suffix rest c) \<Longrightarrow> leaves_suffix (Parser (Some func))"
  by (simp add: leaves_suffix_def)

lemma ls_sat: "leaves_suffix (sat P)"
  unfolding sat_def by (intro ls_do ls_bind ls_pop) (simp add: ls_ret ls_raise)

lemma ls_char: "leaves_suffix (char ch)"
  by (simp add: char_def ls_sat)

lemma ls_string_steps: "leaves_suffix (string_steps s v)"
  by (induction s) (auto intro: ls_ret ls_bind ls_char)

lemma ls_string: "leaves_suffix (string s)"
  by (simp add: string_def ls_do ls_string_steps)

lemma many_loop_suffix:
  assumes "many_loop p acc c = Some y"
  shows "leaves_suffix p \<longrightarrow> (\<forall>v rest. y = Return v rest \<longrightarrow> suffix rest c)"
proof (rule many_loop.raw_induct
    [where P = "\<lambda>p acc c y. leaves_suffix p \<longrightarrow> (\<forall>v rest. y = Return v rest \<longrightarrow> suffix rest c)",
      OF _ assms], goal_cases)
  case (1 loop p acc c y)
  show ?case
  proof
    assume p: "leaves_suffix p"
    have "leaves_suffix (Parser (Some (loop p (acc @ [x]))))" for x
      using 1(1) p by (intro ls_Parser_Some) blast
    then have "leaves_suffix (bind (or_else p (ret VClass_ParserError))
          (\<lambda>x. if x = VClass_ParserError then ret (VList acc)
               else Parser (Some (loop p (acc @ [x])))))"
      using p by (intro ls_bind ls_or_else ls_ret) (simp_all add: ls_ret)
    with 1(2) show "\<forall>v rest. y = Return v rest \<longrightarrow> suffix rest c"
      by (auto dest: leaves_suffixD)
  qed
qed

lemma ls_many: "leaves_suffix p \<Longrightarrow> leaves_suffix (many p)"
  by (rule leaves_suffixI) (use many_loop_suffix in \<open>auto simp: parse_many\<close>)

lemma ls_many1: "leaves_suffix p \<Longrightarrow> leaves_suffix (many1 p)"
  unfolding many1_def
  by (intro ls_do ls_bind ls_many) (auto simp: ls_ret ls_raise split: sum.split)

lemma ls_space: "leaves_suffix space"
  by (simp add: leaves_suffix_def parse_space suffix_dropWhile)

lemma ls_token: "leaves_suffix p \<Longrightarrow> leaves_suffix (token p)"
  unfolding token_def by (intro ls_do ls_bind ls_space ls_ret)

lemma ls_symb: "leaves_suffix (symb s)"
  by (simp add: symb_def ls_token ls_string)

lemma ls_operator:
  "leaves_suffix p_op \<Longrightarrow> leaves_suffix p_n1 \<Longrightarrow> leaves_suffix p_n2
   \<Longrightarrow> leaves_suffix (operator p_op p_n1 p_n2)"
  unfolding operator_def
  by (intro ls_do ls_bind) (auto simp: ls_ret ls_raise split: sum.split)

lemma ls_addop: "leaves_suffix pn1 \<Longrightarrow> leaves_suffix pn2 \<Longrightarrow> leaves_suffix (addop pn1 pn2)"
  unfolding addop_def Let_def
  by (intro ls_operator ls_or_else ls_do ls_bind ls_symb ls_ret)

lemma ls_mulop: "leaves_suffix pn1 \<Longrightarrow> leaves_suffix pn2 \<Longrightarrow> leaves_suffix (mulop pn1 pn2)"
  unfolding mulop_def Let_def
  by (intro ls_operator ls_or_else ls_do ls_bind ls_symb ls_ret)

lemma ls_digits: "leaves_suffix digits"
proof (rule leaves_suffixI)
  fix c v rest
  assume "parse digits c = Some (Return v rest)"
  then have "rest = dropWhile is_space (dropWhile is_digit_or_dot c)"
    by (auto simp: parse_digits split: if_splits sum.splits)
  then show "suffix rest c"
    by (metis suffix_dropWhile suffix_order.trans)
qed

lemma grammar_suffix:
  assumes "grammar n c = Some y"
  shows "\<forall>v rest. y = Return v rest \<longrightarrow> suffix rest c"
proof (rule grammar.raw_induct
    [where P = "\<lambda>n c y. \<forall>v rest. y = Return v rest \<longrightarrow> suffix rest c", OF _ assms],
    goal_cases)
  case (1 g n c y)
  have g: "leaves_suffix (Parser (Some (g k)))" for k
    using 1(1) by (intro ls_Parser_Some) blast
  have "leaves_suffix (or_else (addop (Parser (Some (g Term))) (Parser (Some (g Expr))))
          (Parser (Some (g Term))))"
    by (intro ls_or_else ls_addop g)
  moreover have "leaves_suffix (or_else (mulop (Parser (Some (g Factor))) (Parser (Some (g Term))))
          (Parser (Some (g Factor))))"
    by (intro ls_or_else ls_mulop g)
  moreover have "leaves_suffix (or_else digits
          (do (bind (symb ''('') (\<lambda>_. bind (Parser (Some (g Expr))) (\<lambda>n. bind (symb '')'') (\<lambda>_. ret n))))))"
    by (intro ls_or_else ls_digits ls_do ls_bind ls_symb g ls_ret)
  ultimately show ?case
    using 1(2) by (cases n) (auto dest: leaves_suffixD)
qed

lemma ls_grammar: "leaves_suffix (Parser (Some (grammar n)))"
  by (rule ls_Parser_Some) (use grammar_suffix in blast)

lemma built_leaves_suffix: "built p \<Longrightarrow> leaves_suffix p"
proof (induction rule: built.induct)
  case (built_bind p f)
  then show ?case by (intro ls_bind)
qed (simp_all add: ls_Parser ls_ret ls_raise ls_or_else ls_pick ls_pop ls_do ls_sat ls_char
    ls_string ls_many ls_many1 ls_space ls_token ls_symb ls_operator ls_addop ls_mulop
    ls_digits ls_grammar expr_def term'_def factor_def)

text \<open>
  C7: whenever a parser built from the public combinators and productions of the module
  returns, the input it leaves is a suffix of the input it was given. (Inputs are
  immutable values here as in Python, so the input itself is never changed.)
\<close>

theorem remaining_is_suffix:
  assumes "built p" and "parse p c = Some (Return v rest)"
  shows "suffix rest c"
  using built_leaves_suffix [OF assms(1)] assms(2) by (rule leaves_suffixD)

theorem remaining_is_suffix_witness:
  "built (or_else (addop term' expr) (many1 (token (string ''ab'')))) \<and>
   parse (or_else (addop term' expr) (many1 (token (string ''ab'')))) ''ab ab c''
     = Some (Return (VList [VStr ''ab'', VStr ''ab'']) ''c'') \<and>
   suffix ''c'' ''ab ab c''"
proof -
  have 1: "built (or_else (addop term' expr) (many1 (token (string ''ab''))))"
    by (intro built.intros)
  have 2: "parse (or_else (addop term' expr) (many1 (token (string ''ab'')))) ''ab ab c''
     = Some (Return (VList [VStr ''ab'', VStr ''ab'']) ''c'')"
    by (simp add: run_simps)
  from 1 2 remaining_is_suffix [OF 1 2] show ?thesis
    by (intro conjI)
qed

section \<open>The productions return or raise on every input\<close>

lemma halts_shorter_within: "halts_shorter p c \<Longrightarrow> halts_within p c"
  by (auto simp: halts_shorter_def halts_within_def split: option.splits result.splits)

lemma hw_ret: "halts_within (ret v) c"
  by (simp add: halts_within_def parse_ret)

lemma hw_raise: "halts_within (raise e) c"
  by (simp add: halts_within_def parse_raise)

lemma hw_do: "halts_within body c \<Longrightarrow> halts_within (do body) c"
  by (simp add: halts_within_def parse_do)

lemma hs_do: "halts_shorter body c \<Longrightarrow> halts_shorter (do body) c"
  by (simp add: halts_shorter_def parse_do)

lemma hw_bind:
  assumes "halts_within p c"
    and "\<And>a c'. parse p c = Some (Return a c') \<Longrightarrow> halts_within (f a) c'"
  shows "halts_within (bind p f) c"
proof (cases "parse p c")
  case None
  with assms(1) show ?thesis by (simp add: halts_within_def)
next
  case (Some r)
  show ?thesis
  proof (cases r)
    case (Raise e)
    with Some show ?thesis by (simp add: halts_within_def parse_bind)
  next
    case (Return a c')
    with Some assms(1) have "length c' \<le> length c"
      by (simp add: halts_within_def)
    moreover from Some Return have "halts_within (f a) c'"
      by (intro assms(2)) simp
    ultimately show ?thesis
      using Some Return
      by (auto simp: halts_within_def parse_bind split: option.splits result.splits)
  qed
qed

lemma hs_bind:
  assumes "halts_shorter p c"
    and "\<And>a c'. parse p c = Some (Return a c') \<Longrightarrow> length c' < length c \<Longrightarrow> halts_within (f a) c'"
  shows "halts_shorter (bind p f) c"
proof (cases "parse p c")
  case None
  with assms(1) show ?thesis by (simp add: halts_shorter_def)
next
  case (Some r)
  show ?thesis
  proof (cases r)
    case (Raise e)
    with Some show ?thesis by (simp add: halts_shorter_def parse_bind)
  next
    case (Return a c')
    with Some assms(1) have less: "length c' < length c"
      by (simp add: halts_shorter_def)
    with Some Return have "halts_within (f a) c'"
      by (intro assms(2)) simp_all
    with less show ?thesis
      using Some Return
      by (auto simp: halts_shorter_def halts_within_def parse_bind split: option.splits result.splits)
  qed
qed

lemma hw_or_else: "halts_within p c \<Longrightarrow> halts_within q c \<Longrightarrow> halts_within (or_else p q) c"
  by (auto simp: halts_within_def parse_or_else split: option.splits result.splits exn.splits)

lemma hs_or_else: "halts_shorter p c \<Longrightarrow> halts_shorter q c \<Longrightarrow> halts_shorter (or_else p q) c"
  by (auto simp: halts_shorter_def parse_or_else split: option.splits result.splits exn.splits)

lemma hs_sat: "halts_shorter (sat P) c"
  by (simp add: halts_shorter_def parse_sat split: list.split)

lemma hw_string_steps: "halts_within (string_steps s v) c"
proof (induction s arbitrary: c)
  case Nil
  show ?case by (simp add: hw_ret)
next
  case (Cons ch s)
  show ?case
    by (simp add: char_def) (intro hw_bind halts_shorter_within hs_sat Cons.IH)
qed

lemma hs_string: "s \<noteq> [] \<Longrightarrow> halts_shorter (string s) c"
  by (cases s) (auto simp: string_def char_def intro!: hs_do hs_bind hs_sat hw_string_steps)

lemma hw_token: "halts_within p c \<Longrightarrow> halts_within (token p) c"
  by (auto simp: halts_within_def parse_token split: option.splits result.splits
      intro: order_trans [OF length_dropWhile_le])

lemma hs_token: "halts_shorter p c \<Longrightarrow> halts_shorter (token p) c"
  by (auto simp: halts_shorter_def parse_token split: option.splits result.splits
      intro: le_less_trans [OF length_dropWhile_le])

lemma hs_symb: "s \<noteq> [] \<Longrightarrow> halts_shorter (symb s) c"
  by (simp add: symb_def hs_token hs_string)

lemma hs_digits: "halts_shorter digits c"
  using consuming_digits
  by (auto simp: halts_shorter_def consuming_def parse_digits split: sum.splits)

lemma hs_operator:
  assumes "halts_shorter p_n1 c"
    and "\<And>c'. halts_within p_op c'"
    and "\<And>c'. length c' < length c \<Longrightarrow> halts_within p_n2 c'"
  shows "halts_shorter (operator p_op p_n1 p_n2) c"
  unfolding operator_def
proof (intro hs_do hs_bind assms(1) hw_bind assms(2), goal_cases)
  case (1 n1 c1 op c2)
  have "halts_within p_op c1"
    by (rule assms(2))
  with 1 have "length c2 < length c"
    by (simp add: halts_within_def)
  then show ?case
    by (rule assms(3))
next
  case (2 n1 c1 op c2 n2 c3)
  then show ?case
    by (simp add: hw_ret hw_raise split: sum.split)
qed

lemma hw_operators:
  "halts_within (or_else (do (bind (symb ''+'') (\<lambda>_. ret (VLambda Add))))
                         (do (bind (symb ''-'') (\<lambda>_. ret (VLambda Sub))))) c"
  "halts_within (or_else (do (bind (symb ''*'') (\<lambda>_. ret (VLambda Mul))))
                         (do (bind (symb ''/'') (\<lambda>_. ret (VLambda TrueDiv))))) c"
  by (intro hw_or_else hw_do hw_bind halts_shorter_within hs_symb hw_ret; simp)+

lemma hs_addop:
  "halts_shorter pn1 c \<Longrightarrow> (\<And>c'. length c' < length c \<Longrightarrow> halts_within pn2 c')
   \<Longrightarrow> halts_shorter (addop pn1 pn2) c"
  unfolding addop_def Let_def by (intro hs_operator hw_operators)

lemma hs_mulop:
  "halts_shorter pn1 c \<Longrightarrow> (\<And>c'. length c' < length c \<Longrightarrow> halts_within pn2 c')
   \<Longrightarrow> halts_shorter (mulop pn1 pn2) c"
  unfolding mulop_def Let_def by (intro hs_operator hw_operators)

lemma hs_production: "halts_shorter (Parser (Some (grammar n))) c"
proof (induction "3 * length c + rank n" arbitrary: n c rule: less_induct)
  case less
  have shorter: "halts_within (Parser (Some (grammar k))) c'" if "length c' < length c" for k c'
    using that by (intro halts_shorter_within less) (cases k; cases n; simp)
  show ?case
  proof (cases n)
    case Expr
    have "halts_shorter term' c"
      unfolding term'_def using Expr by (intro less) simp
    then have "halts_shorter (or_else (addop term' expr) term') c"
      by (intro hs_or_else hs_addop) (simp_all add: expr_def shorter)
    then have "halts_shorter expr c"
      by (simp add: halts_shorter_def parse_expr)
    then show ?thesis
      using Expr by (simp add: expr_def)
  next
    case Term
    have "halts_shorter factor c"
      unfolding factor_def using Term by (intro less) simp
    then have "halts_shorter (or_else (mulop factor term') factor) c"
      by (intro hs_or_else hs_mulop) (simp_all add: term'_def shorter)
    then have "halts_shorter term' c"
      by (simp add: halts_shorter_def parse_term)
    then show ?thesis
      using Term by (simp add: term'_def)
  next
    case Factor
    have "halts_shorter (do (bind (symb ''('') (\<lambda>_. bind expr (\<lambda>n. bind (symb '')'') (\<lambda>_. ret n))))) c"
      by (intro hs_do hs_bind hs_symb hw_bind halts_shorter_within [OF hs_symb] hw_ret)
        (simp_all add: expr_def shorter)
    then have "halts_shorter (or_else digits
        (do (bind (symb ''('') (\<lambda>_. bind expr (\<lambda>n. bind (symb '')'') (\<lambda>_. ret n)))))) c"
      by (intro hs_or_else hs_digits)
    then have "halts_shorter factor c"
      by (simp add: halts_shorter_def parse_factor)
    then show ?thesis
      using Factor by (simp add: factor_def)
  qed
qed

text \<open>
  On every input each of \<open>expr\<close>, \<open>term\<close> and \<open>factor\<close> returns or raises, and when it
  returns it has consumed at least one character: the recursion of the grammar ends.
\<close>

theorem productions_total:
  "terminating expr \<and> terminating term' \<and> terminating factor \<and>
   consuming expr \<and> consuming term' \<and> consuming factor"
proof -
  have "grammar n c \<noteq> None \<and> (\<forall>v rest. grammar n c = Some (Return v rest) \<longrightarrow> length rest < length c)"
    for n c
    using hs_production [of n c]
    by (auto simp: halts_shorter_def split: option.splits result.splits)
  then show ?thesis
    by (simp add: terminating_def consuming_def expr_def term'_def factor_def)
qed
end
